theory Spec2Isabelle
  imports Complex_Main
begin

section \<open>Dispatch scoring: rule probabilities, blending, grades, recommendations\<close>

text \<open>
  A shallow embedding of the scoring functions of the dispatch predictor:
  \<^item> \<open>business_rules.py\<close>: \<open>DispatchBusinessRules\<close> (bucket tables, adjustment
    tables, \<open>get_workload_category\<close>, \<open>get_distance_category\<close>,
    \<open>calculate_rule_based_probability\<close>) and \<open>blend_probabilities\<close>;
  \<^item> \<open>calculate_historical_grades.py\<close>: \<open>calculate_dispatch_grade\<close>;
  \<^item> \<open>predict_current_dispatches.py\<close> and \<open>predict.py\<close>: \<open>get_recommendation\<close>.

  Python numbers are modelled as mathematical reals (type \<open>real\<close>): the theorems are
  about the arithmetic the code writes down, with exact addition, multiplication, division
  and exponential. Two things that exact arithmetic cannot show are modelled apart: a
  null (\<open>None\<close> or \<open>NaN\<close>) in a field of a row, and the rounding of doubles in the
  distance score, where it decides whether the score strictly decreases. The one infinite
  value the code itself uses, the upper bound \<open>float('inf')\<close> of the last bucket of each
  table, is a constructor of its own.
\<close>

subsection \<open>Outcomes of a call\<close>

text \<open>
  A Python call either raises or returns. Where a function has a raising site (a dictionary
  indexed by \<open>d[k]\<close>) or a claim speaks about raising, the result type is
  \<open>py_error + 'a\<close>, with \<open>Inl\<close> for the exception.
\<close>

datatype py_error = KeyError string | ConfigurationError

subsection \<open>business\_rules.py: the tables of \<open>DispatchBusinessRules.__init__\<close>\<close>

text \<open>An upper bound of a bucket: a number, or \<open>float('inf')\<close>.\<close>

datatype bound = Fin real | PosInf

text \<open>\<open>x < b\<close> for a bound \<open>b\<close>: every real is below \<open>float('inf')\<close>.\<close>

fun lt_bound :: "real \<Rightarrow> bound \<Rightarrow> bool" where
  "lt_bound x (Fin b) = (x < b)"
| "lt_bound x PosInf = True"

definition base_success_rate :: real where
  "base_success_rate = 0.55"

definition skill_match_boost :: real where
  "skill_match_boost = 0.37"

definition skill_mismatch_penalty :: real where
  "skill_mismatch_penalty = - 0.10"

text \<open>
  Python dictionaries keep insertion order, and the bucket loops below depend on it, so
  the tables are association lists in the order of the source.
\<close>

definition workload_thresholds :: "(string \<times> real \<times> bound) list" where
  "workload_thresholds =
     [(''low'', 0, Fin 0.5),
      (''medium'', 0.5, Fin 0.8),
      (''high'', 0.8, Fin 1.0),
      (''overloaded'', 1.0, PosInf)]"

definition workload_adjustments :: "(string \<times> real) list" where
  "workload_adjustments =
     [(''low'', 0.32),
      (''medium'', 0.30),
      (''high'', - 0.10),
      (''overloaded'', - 0.30)]"

definition distance_thresholds :: "(string \<times> real \<times> bound) list" where
  "distance_thresholds =
     [(''very_close'', 0, Fin 10),
      (''close'', 10, Fin 50),
      (''medium'', 50, Fin 100),
      (''far'', 100, Fin 500),
      (''very_far'', 500, PosInf)]"

definition distance_adjustments :: "(string \<times> real) list" where
  "distance_adjustments =
     [(''very_close'', 0.33),
      (''close'', 0.05),
      (''medium'', 0.00),
      (''far'', - 0.12),
      (''very_far'', - 0.30)]"

definition priority_adjustments :: "(string \<times> real) list" where
  "priority_adjustments =
     [(''Low'', 0.02),
      (''Normal'', 0.00),
      (''High'', - 0.02),
      (''Critical'', - 0.05)]"

definition ticket_type_adjustments :: "(string \<times> real) list" where
  "ticket_type_adjustments =
     [(''Order'', 0.02),
      (''Trouble'', - 0.03)]"

subsection \<open>business\_rules.py: bucketing\<close>

text \<open>
  The loop of \<open>get_workload_category\<close> and of \<open>get_distance_category\<close>:
  \<^verbatim>\<open>
  for category, (min_val, max_val) in thresholds.items():
      if min_val <= value < max_val:
          return category
  return 'medium'
  \<close>
\<close>

fun category_loop :: "(string \<times> real \<times> bound) list \<Rightarrow> real \<Rightarrow> string" where
  "category_loop [] v = ''medium''"
| "category_loop ((category, min_val, max_val) # rest) v =
     (if min_val \<le> v \<and> lt_bound v max_val then category else category_loop rest v)"

definition get_workload_category :: "real \<Rightarrow> string" where
  "get_workload_category workload_ratio = category_loop workload_thresholds workload_ratio"

definition get_distance_category :: "real \<Rightarrow> string" where
  "get_distance_category distance_km = category_loop distance_thresholds distance_km"

subsection \<open>business\_rules.py: the rule-based probability\<close>

text \<open>
  The row of dispatch features is a pandas \<open>Series\<close>. On the call path
  (\<open>calculate_probabilities\<close> applies the function to every row of a data frame) every
  column is a key of the row, and a missing value is a null stored under its key:
  \<open>None\<close> in a text column, \<open>NaN\<close> in a numeric one. A row built by hand may also
  lack a key. So a field is absent, null, or a value.
\<close>

datatype 'a cell = Absent | Null | Val 'a

record row =
  skill_match :: "int cell"
  workload_ratio :: "real cell"
  distance :: "real cell"
  priority :: "string cell"
  ticket_type :: "string cell"

text \<open>
  \<open>row.get(key, default)\<close>: the default stands in for an absent key only; a null under a
  present key is handed on as it is. The result is \<open>None\<close> for that null.
\<close>

fun row_get :: "'a cell \<Rightarrow> 'a \<Rightarrow> 'a option" where
  "row_get Absent dflt = Some dflt"
| "row_get Null dflt = None"
| "row_get (Val v) dflt = Some v"

text \<open>
  The bucket functions applied to what was read from the row, a number or \<open>NaN\<close>. Every
  comparison with \<open>NaN\<close> is false, so the test \<open>min_val <= value < max_val\<close> fails for
  each interval; on a number the loop is \<open>category_loop\<close>.
\<close>

fun in_interval :: "real \<Rightarrow> real option \<Rightarrow> bound \<Rightarrow> bool" where
  "in_interval min_val None max_val = False"
| "in_interval min_val (Some v) max_val = (min_val \<le> v \<and> lt_bound v max_val)"

fun category_loop_read :: "(string \<times> real \<times> bound) list \<Rightarrow> real option \<Rightarrow> string" where
  "category_loop_read [] v = ''medium''"
| "category_loop_read ((category, min_val, max_val) # rest) v =
     (if in_interval min_val v max_val then category else category_loop_read rest v)"

definition get_workload_category_read :: "real option \<Rightarrow> string" where
  "get_workload_category_read v = category_loop_read workload_thresholds v"

definition get_distance_category_read :: "real option \<Rightarrow> string" where
  "get_distance_category_read v = category_loop_read distance_thresholds v"

text \<open>\<open>d[k]\<close>: raises \<open>KeyError\<close> on a missing key.\<close>

definition dict_index :: "(string \<times> real) list \<Rightarrow> string \<Rightarrow> py_error + real" where
  "dict_index d k = (case map_of d k of None \<Rightarrow> Inl (KeyError k) | Some v \<Rightarrow> Inr v)"

text \<open>\<open>d.get(k, default)\<close>.\<close>

definition dict_get :: "(string \<times> real) list \<Rightarrow> string \<Rightarrow> real \<Rightarrow> real" where
  "dict_get d k dflt = (case map_of d k of None \<Rightarrow> dflt | Some v \<Rightarrow> v)"

text \<open>
  \<open>d.get(k, default)\<close> with a key read from the row: a null is hashable and is not a
  key of any table, so it gets the default.
\<close>

definition dict_get_read :: "(string \<times> real) list \<Rightarrow> string option \<Rightarrow> real \<Rightarrow> real" where
  "dict_get_read d k dflt = (case k of None \<Rightarrow> dflt | Some key \<Rightarrow> dict_get d key dflt)"

text \<open>\<open>np.clip(x, lo, hi)\<close> is \<open>minimum(maximum(x, lo), hi)\<close>.\<close>

definition clip :: "real \<Rightarrow> real \<Rightarrow> real \<Rightarrow> real" where
  "clip x lo hi = min (max x lo) hi"

definition calculate_rule_based_probability :: "row \<Rightarrow> py_error + real" where
  "calculate_rule_based_probability r =
     (let prob = base_success_rate;
          prob = (if row_get (skill_match r) 0 = Some 1
                  then prob + skill_match_boost
                  else prob + skill_mismatch_penalty);
          workload_ratio = row_get (workload_ratio r) 0.5;
          workload_cat = get_workload_category_read workload_ratio
      in case dict_index workload_adjustments workload_cat of
           Inl e \<Rightarrow> Inl e
         | Inr w_adj \<Rightarrow>
            (let prob = prob + w_adj;
                 distance_km = row_get (distance r) 50;
                 distance_cat = get_distance_category_read distance_km
             in case dict_index distance_adjustments distance_cat of
                  Inl e \<Rightarrow> Inl e
                | Inr d_adj \<Rightarrow>
                   (let prob = prob + d_adj;
                        priority = row_get (priority r) ''Normal'';
                        prob = prob + dict_get_read priority_adjustments priority 0.0;
                        ticket_type = row_get (ticket_type r) ''Order'';
                        prob = prob + dict_get_read ticket_type_adjustments ticket_type 0.0
                    in Inr (clip prob 0.0 1.0))))"

subsection \<open>business\_rules.py: blending\<close>

text \<open>
  \<open>blend_probabilities(ml_prob, rule_prob, rule_weight=0.7)\<close>: the body is the single
  \<open>return\<close>; there is no check of \<open>rule_weight\<close> and no \<open>raise\<close>.
\<close>

definition blend_probabilities :: "real \<Rightarrow> real \<Rightarrow> real \<Rightarrow> py_error + real" where
  "blend_probabilities ml_prob rule_prob rule_weight =
     Inr (rule_weight * rule_prob + (1 - rule_weight) * ml_prob)"

text \<open>The default argument \<open>rule_weight=0.7\<close>.\<close>

definition blend_probabilities_default :: "real \<Rightarrow> real \<Rightarrow> py_error + real" where
  "blend_probabilities_default ml_prob rule_prob = blend_probabilities ml_prob rule_prob 0.7"

subsection \<open>calculate\_historical\_grades.py: the dispatch grade\<close>

text \<open>
  The four local scores of \<open>calculate_dispatch_grade\<close>, each as the source computes it,
  and the function that sums and caps them. \<open>success_prob\<close> is \<open>None\<close> or a number;
  the condition \<open>use_probabilities and success_prob is not None\<close> is the pattern
  \<open>(True, Some p)\<close>.
\<close>

definition max_distance_for_zero :: real where
  "max_distance_for_zero = 250"

definition distance_score :: "real \<Rightarrow> real" where
  "distance_score distance_km =
     (if distance_km \<ge> max_distance_for_zero then 0
      else (let k = 0.02;
                s = 30 * exp (- k * distance_km)
            in max 0 (min 30 s)))"

definition duration_score :: "real \<Rightarrow> real" where
  "duration_score overrun =
     (if overrun \<le> 0
      then (let bonus = min 6 (\<bar>overrun\<bar> / 30 * 6) in 30 + bonus)
      else (let penalty_rate = 30 / 90 in max 0 (30 - (overrun * penalty_rate))))"

definition productive_score :: "real \<Rightarrow> bool \<Rightarrow> real option \<Rightarrow> real" where
  "productive_score productive_dispatch use_probabilities success_prob =
     (case (use_probabilities, success_prob) of
        (True, Some p) \<Rightarrow> p * 25
      | _ \<Rightarrow> productive_dispatch * 25)"

definition ftf_score :: "real \<Rightarrow> bool \<Rightarrow> real option \<Rightarrow> real" where
  "ftf_score first_time_fix use_probabilities success_prob =
     (case (use_probabilities, success_prob) of
        (True, Some p) \<Rightarrow> p * 15
      | _ \<Rightarrow> first_time_fix * 15)"

definition calculate_dispatch_grade ::
  "real \<Rightarrow> real \<Rightarrow> real \<Rightarrow> real \<Rightarrow> bool \<Rightarrow> real option \<Rightarrow> real" where
  "calculate_dispatch_grade distance_km overrun productive_dispatch first_time_fix
       use_probabilities success_prob =
     (let grade = 0;
          grade = grade + distance_score distance_km;
          grade = grade + duration_score overrun;
          grade = grade + productive_score productive_dispatch use_probabilities success_prob;
          grade = grade + ftf_score first_time_fix use_probabilities success_prob
      in min 100 grade)"

subsection \<open>predict\_current\_dispatches.py and predict.py: recommendations\<close>

text \<open>
  The format \<open>{x:.0f}\<close>: the sign, then the decimal digits of \<open>|x|\<close> rounded to an
  integer, ties to even.
\<close>

definition round_half_even :: "real \<Rightarrow> nat" where
  "round_half_even x =
     (let f = nat \<lfloor>x\<rfloor>; d = x - real_of_int \<lfloor>x\<rfloor>
      in if d < 1 / 2 then f
         else if d > 1 / 2 then f + 1
         else if even f then f else f + 1)"








subsection \<open>calculate\_historical\_grades.py: the distance score in double arithmetic\<close>

text \<open>
  Whether the distance score strictly decreases depends on rounding, which exact
  arithmetic hides. \<open>round_double\<close> rounds a real to the nearest double, ties to even:
  a double in the binade \<open>[2^e, 2^(e+1))\<close> is a multiple of \<open>2^(e-52)\<close>. The exponent is
  not bounded: overflow and subnormal numbers are left out. The products and exponentials
  of the distance score stay far from overflow, and the distances used as examples below
  stay far from the subnormal range.
\<close>

definition round_double :: "real \<Rightarrow> real" where
  "round_double x =
     (if x = 0 then 0
      else (let e = \<lfloor>log 2 \<bar>x\<bar>\<rfloor>;
                u = 2 powr real_of_int (e - 52)
            in sgn x * (u * real (round_half_even (\<bar>x\<bar> / u)))))"

text \<open>
  \<open>np.exp\<close> belongs to numpy, not to this repository; it is taken to return the double
  nearest to the exponential.
\<close>

definition np_exp :: "real \<Rightarrow> real" where
  "np_exp x = round_double (exp x)"

text \<open>
  The distance score with every operation rounded as Python rounds it: the literal
  \<open>0.02\<close>, the product \<open>-k * distance\<close>, \<open>np.exp\<close>, and the product by 30. The
  comparisons, \<open>min\<close> and \<open>max\<close> are exact.
\<close>

definition distance_score_double :: "real \<Rightarrow> real" where
  "distance_score_double distance_km =
     (if distance_km \<ge> max_distance_for_zero then 0
      else (let k = round_double 0.02;
                s = round_double (30 * np_exp (round_double (- k * distance_km)))
            in max 0 (min 30 s)))"

subsection \<open>The rule-based probability as the specification words it\<close>

text \<open>
  The specification gives the adjustments by interval and by name: workload
  low \<open>[0,0.5)\<close> +0.32, medium \<open>[0.5,0.8)\<close> +0.30, high \<open>[0.8,1.0)\<close> -0.10,
  overloaded \<open>[1.0,\<infinity>)\<close> -0.30; distance very\_close \<open>[0,10)\<close> +0.33, close
  \<open>[10,50)\<close> +0.05, medium \<open>[50,100)\<close> 0, far \<open>[100,500)\<close> -0.12, very\_far
  \<open>[500,\<infinity>)\<close> -0.30; a value in no interval takes the default label \<open>medium\<close>
  of its table; unknown priorities and ticket types add 0. These definitions follow those
  words and are compared with the code below.
\<close>

definition workload_adjustment_spec :: "real \<Rightarrow> real" where
  "workload_adjustment_spec w =
     (if 0 \<le> w \<and> w < 0.5 then 0.32
      else if 0.5 \<le> w \<and> w < 0.8 then 0.30
      else if 0.8 \<le> w \<and> w < 1.0 then - 0.10
      else if 1.0 \<le> w then - 0.30
      else 0.30)"

definition distance_adjustment_spec :: "real \<Rightarrow> real" where
  "distance_adjustment_spec d =
     (if 0 \<le> d \<and> d < 10 then 0.33
      else if 10 \<le> d \<and> d < 50 then 0.05
      else if 50 \<le> d \<and> d < 100 then 0.00
      else if 100 \<le> d \<and> d < 500 then - 0.12
      else if 500 \<le> d then - 0.30
      else 0.00)"

definition priority_adjustment_spec :: "string \<Rightarrow> real" where
  "priority_adjustment_spec p =
     (if p = ''Low'' then 0.02
      else if p = ''Normal'' then 0
      else if p = ''High'' then - 0.02
      else if p = ''Critical'' then - 0.05
      else 0)"

definition ticket_type_adjustment_spec :: "string \<Rightarrow> real" where
  "ticket_type_adjustment_spec t =
     (if t = ''Order'' then 0.02
      else if t = ''Trouble'' then - 0.03
      else 0)"

text \<open>
  The contribution of a field of the row: an absent key takes the documented default
  (\<open>workload_ratio\<close> 0.5, \<open>distance\<close> 50, \<open>priority\<close> Normal, \<open>ticket_type\<close> Order);
  a null is in no interval (label \<open>medium\<close>: +0.30 for the workload, 0 for the distance)
  and is no known priority or ticket type (0).
\<close>

definition workload_term_spec :: "real cell \<Rightarrow> real" where
  "workload_term_spec c =
     (case c of Absent \<Rightarrow> workload_adjustment_spec 0.5
              | Null \<Rightarrow> 0.30
              | Val w \<Rightarrow> workload_adjustment_spec w)"

definition distance_term_spec :: "real cell \<Rightarrow> real" where
  "distance_term_spec c =
     (case c of Absent \<Rightarrow> distance_adjustment_spec 50
              | Null \<Rightarrow> 0.00
              | Val d \<Rightarrow> distance_adjustment_spec d)"

definition priority_term_spec :: "string cell \<Rightarrow> real" where
  "priority_term_spec c =
     (case c of Absent \<Rightarrow> priority_adjustment_spec ''Normal''
              | Null \<Rightarrow> 0
              | Val p \<Rightarrow> priority_adjustment_spec p)"

definition ticket_type_term_spec :: "string cell \<Rightarrow> real" where
  "ticket_type_term_spec c =
     (case c of Absent \<Rightarrow> ticket_type_adjustment_spec ''Order''
              | Null \<Rightarrow> 0
              | Val t \<Rightarrow> ticket_type_adjustment_spec t)"

definition rule_probability_spec :: "row \<Rightarrow> real" where
  "rule_probability_spec r =
     clip (0.55
           + (if skill_match r = Val 1 then 0.37 else - 0.10)
           + workload_term_spec (workload_ratio r)
           + distance_term_spec (distance r)
           + priority_term_spec (priority r)
           + ticket_type_term_spec (ticket_type r))
          0 1"

text \<open>The rows of the examples.\<close>

definition ideal_row :: row where
  "ideal_row = \<lparr>skill_match = Val 1, workload_ratio = Val 0.4, distance = Val 15,
                 priority = Val ''Normal'', ticket_type = Val ''Order''\<rparr>"

definition adverse_row :: row where
  "adverse_row = \<lparr>skill_match = Val 0, workload_ratio = Val 1.2, distance = Val 600,
                 priority = Val ''Critical'', ticket_type = Val ''Trouble''\<rparr>"

definition null_ticket_row :: row where
  "null_ticket_row = \<lparr>skill_match = Val 0, workload_ratio = Val 0.6, distance = Val 150,
                 priority = Val ''Normal'', ticket_type = Null\<rparr>"

section \<open>Properties\<close>

subsection \<open>Buckets and adjustment tables\<close>

lemma category_loop_find:
  "category_loop tbl v =
     (case find (\<lambda>(c, lo, hi). lo \<le> v \<and> lt_bound v hi) tbl of
        None \<Rightarrow> ''medium''
      | Some (c, lo, hi) \<Rightarrow> c)"
  by (induction tbl v rule: category_loop.induct) simp_all

lemma get_workload_category_cases:
  "get_workload_category w =
     (if w < 0 then ''medium''
      else if w < 0.5 then ''low''
      else if w < 0.8 then ''medium''
      else if w < 1 then ''high''
      else ''overloaded'')"
  by (simp add: get_workload_category_def workload_thresholds_def)

lemma get_distance_category_cases:
  "get_distance_category d =
     (if d < 0 then ''medium''
      else if d < 10 then ''very_close''
      else if d < 50 then ''close''
      else if d < 100 then ''medium''
      else if d < 500 then ''far''
      else ''very_far'')"
  by (simp add: get_distance_category_def distance_thresholds_def)

lemma workload_adjustment_of_category:
  "dict_index workload_adjustments (get_workload_category w) =
     Inr (if w < 0 then 0.30
          else if w < 0.5 then 0.32
          else if w < 0.8 then 0.30
          else if w < 1 then - 0.10
          else - 0.30)"
  by (simp add: get_workload_category_cases dict_index_def workload_adjustments_def)

lemma distance_adjustment_of_category:
  "dict_index distance_adjustments (get_distance_category d) =
     Inr (if d < 0 then 0
          else if d < 10 then 0.33
          else if d < 50 then 0.05
          else if d < 100 then 0
          else if d < 500 then - 0.12
          else - 0.30)"
  by (simp add: get_distance_category_cases dict_index_def distance_adjustments_def)

lemma priority_adjustment_cases:
  "dict_get priority_adjustments p 0 =
     (if p = ''Low'' then 0.02
      else if p = ''Normal'' then 0
      else if p = ''High'' then - 0.02
      else if p = ''Critical'' then - 0.05
      else 0)"
  by (simp add: dict_get_def priority_adjustments_def)

lemma ticket_type_adjustment_cases:
  "dict_get ticket_type_adjustments t 0 =
     (if t = ''Order'' then 0.02
      else if t = ''Trouble'' then - 0.03
      else 0)"
  by (simp add: dict_get_def ticket_type_adjustments_def)

subsection \<open>The rule-based probability\<close>

text \<open>
  On a number read from the row the bucket is the one of \<open>get_workload_category\<close> or
  \<open>get_distance_category\<close>; on \<open>NaN\<close> no interval matches and the label is the
  default.
\<close>

lemma category_loop_read_Some: "category_loop_read tbl (Some v) = category_loop tbl v"
  by (induction tbl v rule: category_loop.induct) simp_all

lemma category_loop_read_None: "category_loop_read tbl None = ''medium''"
  by (induction tbl) auto

lemma get_workload_category_read_simps:
  "get_workload_category_read (Some w) = get_workload_category w"
  "get_workload_category_read None = ''medium''"
  by (simp_all add: get_workload_category_read_def get_workload_category_def
      category_loop_read_Some category_loop_read_None)

lemma get_distance_category_read_simps:
  "get_distance_category_read (Some d) = get_distance_category d"
  "get_distance_category_read None = ''medium''"
  by (simp_all add: get_distance_category_read_def get_distance_category_def
      category_loop_read_Some category_loop_read_None)

lemma workload_term_of_cell:
  "dict_index workload_adjustments (get_workload_category_read (row_get c 0.5))
     = Inr (workload_term_spec c)"
proof (cases c)
  case Absent
  then show ?thesis
    unfolding workload_term_spec_def workload_adjustment_spec_def
    by (simp add: get_workload_category_read_simps workload_adjustment_of_category)
next
  case Null
  then show ?thesis
    by (simp add: get_workload_category_read_simps workload_term_spec_def dict_index_def
        workload_adjustments_def)
next
  case (Val w)
  then show ?thesis
    unfolding workload_term_spec_def workload_adjustment_spec_def
    by (simp add: get_workload_category_read_simps workload_adjustment_of_category)
qed

lemma distance_term_of_cell:
  "dict_index distance_adjustments (get_distance_category_read (row_get c 50))
     = Inr (distance_term_spec c)"
proof (cases c)
  case Absent
  then show ?thesis
    unfolding distance_term_spec_def distance_adjustment_spec_def
    by (simp add: get_distance_category_read_simps distance_adjustment_of_category)
next
  case Null
  then show ?thesis
    by (simp add: get_distance_category_read_simps distance_term_spec_def dict_index_def
        distance_adjustments_def)
next
  case (Val d)
  then show ?thesis
    unfolding distance_term_spec_def distance_adjustment_spec_def
    by (simp add: get_distance_category_read_simps distance_adjustment_of_category)
qed

lemma priority_term_of_cell:
  "dict_get_read priority_adjustments (row_get c ''Normal'') 0.0 = priority_term_spec c"
  by (cases c)
    (simp_all add: dict_get_read_def priority_term_spec_def priority_adjustment_spec_def
      priority_adjustment_cases)

lemma ticket_type_term_of_cell:
  "dict_get_read ticket_type_adjustments (row_get c ''Order'') 0.0 = ticket_type_term_spec c"
  by (cases c)
    (simp_all add: dict_get_read_def ticket_type_term_spec_def ticket_type_adjustment_spec_def
      ticket_type_adjustment_cases)

lemma skill_match_get: "(row_get s (0::int) = Some 1) = (s = Val 1)"
  by (cases s) simp_all

text \<open>
  No \<open>KeyError\<close> can occur: the bucket functions only return labels that are keys of
  their adjustment table. What is left is the clipped sum.
\<close>

lemma rule_probability_unfolded:
  "calculate_rule_based_probability r =
     Inr (clip (base_success_rate
                + (if skill_match r = Val 1 then skill_match_boost else skill_mismatch_penalty)
                + workload_term_spec (workload_ratio r)
                + distance_term_spec (distance r)
                + priority_term_spec (priority r)
                + ticket_type_term_spec (ticket_type r)) 0 1)"
  unfolding calculate_rule_based_probability_def Let_def workload_term_of_cell
    distance_term_of_cell priority_term_of_cell ticket_type_term_of_cell skill_match_get
  by simp

lemma clip_unit: "0 \<le> clip x 0 1 \<and> clip x 0 1 \<le> 1"
  by (simp add: clip_def)

text \<open>
  Claim C1 says that a missing \<open>ticket_type\<close> defaults to \<open>Order\<close>. That holds for a row
  without the key, not for a null under the key, which is how a missing value arrives from
  the data frame: with skill mismatch, workload 0.6, distance 150 and priority Normal a
  null \<open>ticket_type\<close> gives 0.63, where \<open>Order\<close> gives 0.65.
\<close>

theorem rule_probability_null_ticket_counterexample:
  "calculate_rule_based_probability null_ticket_row = Inr (63 / 100)
   \<and> calculate_rule_based_probability (null_ticket_row\<lparr>ticket_type := Val ''Order''\<rparr>)
       = Inr (65 / 100)
   \<and> calculate_rule_based_probability null_ticket_row
       \<noteq> calculate_rule_based_probability (null_ticket_row\<lparr>ticket_type := Val ''Order''\<rparr>)"
  unfolding rule_probability_unfolded
  by (simp add: null_ticket_row_def workload_term_spec_def distance_term_spec_def
      priority_term_spec_def ticket_type_term_spec_def workload_adjustment_spec_def
      distance_adjustment_spec_def priority_adjustment_spec_def
      ticket_type_adjustment_spec_def base_success_rate_def skill_match_boost_def
      skill_mismatch_penalty_def clip_def)

text \<open>
  Claim C1, amended. For every row, \<open>calculate_rule_based_probability\<close> returns (it does
  not raise) the value \<open>clip(0.55 + skill term + workload adjustment + distance adjustment
  + priority adjustment + ticket type adjustment, 0, 1)\<close>, the adjustments being those of
  the bucket of the value, or 0 for an unknown priority or ticket type. The row
  \<open>skill_match=1, workload_ratio=0.4, distance=15, priority=Normal, ticket_type=Order\<close>
  yields exactly 1. A \<open>workload_ratio\<close> that is absent or null is scored as 0.5 is (bucket
  medium); a \<open>priority\<close> that is absent or null is scored as \<open>Normal\<close> is; a
  \<open>ticket_type\<close> absent from the row is scored as \<open>Order\<close>, while a null
  \<open>ticket_type\<close> under its key is an unknown type and adds 0.
\<close>

theorem rule_probability_matches_spec:
  "calculate_rule_based_probability r = Inr (rule_probability_spec r)
   \<and> calculate_rule_based_probability ideal_row = Inr 1
   \<and> calculate_rule_based_probability (r\<lparr>workload_ratio := Absent\<rparr>)
       = calculate_rule_based_probability (r\<lparr>workload_ratio := Val 0.5\<rparr>)
   \<and> calculate_rule_based_probability (r\<lparr>workload_ratio := Null\<rparr>)
       = calculate_rule_based_probability (r\<lparr>workload_ratio := Val 0.5\<rparr>)
   \<and> get_workload_category 0.5 = ''medium''
   \<and> calculate_rule_based_probability (r\<lparr>priority := Absent\<rparr>)
       = calculate_rule_based_probability (r\<lparr>priority := Val ''Normal''\<rparr>)
   \<and> calculate_rule_based_probability (r\<lparr>priority := Null\<rparr>)
       = calculate_rule_based_probability (r\<lparr>priority := Val ''Normal''\<rparr>)
   \<and> calculate_rule_based_probability (r\<lparr>ticket_type := Absent\<rparr>)
       = calculate_rule_based_probability (r\<lparr>ticket_type := Val ''Order''\<rparr>)
   \<and> ticket_type_term_spec Null = 0
   \<and> ticket_type_term_spec (Val ''Order'') = 0.02"
proof -
  have spec: "calculate_rule_based_probability r = Inr (rule_probability_spec r)" for r
    unfolding rule_probability_unfolded rule_probability_spec_def
    by (simp add: base_success_rate_def skill_match_boost_def skill_mismatch_penalty_def)
  have ideal: "calculate_rule_based_probability ideal_row = Inr 1"
    unfolding spec
    by (simp add: rule_probability_spec_def ideal_row_def workload_term_spec_def
        distance_term_spec_def priority_term_spec_def ticket_type_term_spec_def
        workload_adjustment_spec_def distance_adjustment_spec_def
        priority_adjustment_spec_def ticket_type_adjustment_spec_def clip_def)
  have wl: "calculate_rule_based_probability (r\<lparr>workload_ratio := Absent\<rparr>)
       = calculate_rule_based_probability (r\<lparr>workload_ratio := Val 0.5\<rparr>)"
    "calculate_rule_based_probability (r\<lparr>workload_ratio := Null\<rparr>)
       = calculate_rule_based_probability (r\<lparr>workload_ratio := Val 0.5\<rparr>)"
    unfolding spec
    by (simp_all add: rule_probability_spec_def workload_term_spec_def
        workload_adjustment_spec_def)
  have pr: "calculate_rule_based_probability (r\<lparr>priority := Absent\<rparr>)
       = calculate_rule_based_probability (r\<lparr>priority := Val ''Normal''\<rparr>)"
    "calculate_rule_based_probability (r\<lparr>priority := Null\<rparr>)
       = calculate_rule_based_probability (r\<lparr>priority := Val ''Normal''\<rparr>)"
    unfolding spec
    by (simp_all add: rule_probability_spec_def priority_term_spec_def
        priority_adjustment_spec_def)
  have tt: "calculate_rule_based_probability (r\<lparr>ticket_type := Absent\<rparr>)
       = calculate_rule_based_probability (r\<lparr>ticket_type := Val ''Order''\<rparr>)"
    unfolding spec by (simp add: rule_probability_spec_def ticket_type_term_spec_def)
  have tn: "ticket_type_term_spec Null = 0" "ticket_type_term_spec (Val ''Order'') = 0.02"
    by (simp_all add: ticket_type_term_spec_def ticket_type_adjustment_spec_def)
  have med: "get_workload_category 0.5 = ''medium''"
    by (simp add: get_workload_category_cases)
  from spec ideal wl pr tt tn med show ?thesis by simp
qed

text \<open>
  Claim C9. For every row, whatever fields are present or missing and whatever their values,
  \<open>calculate_rule_based_probability\<close> returns a value in \<open>[0,1]\<close>. The most adverse
  stack (skill mismatch, overloaded, very far, Critical, Trouble) sums to -0.23 and is
  clipped to 0.
\<close>

theorem rule_probability_in_unit_interval:
  "(\<exists>p. calculate_rule_based_probability r = Inr p \<and> 0 \<le> p \<and> p \<le> 1)
   \<and> calculate_rule_based_probability adverse_row = Inr 0"
proof -
  have "\<exists>p. calculate_rule_based_probability r = Inr p \<and> 0 \<le> p \<and> p \<le> 1"
    unfolding rule_probability_unfolded using clip_unit by blast
  moreover have "calculate_rule_based_probability adverse_row = Inr 0"
    unfolding rule_probability_unfolded
    by (simp add: adverse_row_def workload_term_spec_def distance_term_spec_def
        priority_term_spec_def ticket_type_term_spec_def workload_adjustment_spec_def
        distance_adjustment_spec_def priority_adjustment_spec_def
        ticket_type_adjustment_spec_def base_success_rate_def skill_match_boost_def
        skill_mismatch_penalty_def clip_def)
  ultimately show ?thesis by simp
qed

subsection \<open>Bucketing is total\<close>

text \<open>
  Claim C7. \<open>get_workload_category\<close> and \<open>get_distance_category\<close> return a label for
  every real input. A non-negative input gets the label of the half-open interval
  \<open>[lower, upper)\<close> that contains it (workload: low \<open>[0,0.5)\<close>, medium \<open>[0.5,0.8)\<close>,
  high \<open>[0.8,1.0)\<close>, overloaded from 1.0 on; distance: very\_close \<open>[0,10)\<close>, close
  \<open>[10,50)\<close>, medium \<open>[50,100)\<close>, far \<open>[100,500)\<close>, very\_far from 500 on), so a
  boundary value belongs to the bucket it starts. An input in no interval (a negative one)
  gets the default \<open>medium\<close>. For any table, the loop returns the label of the first
  interval containing the value, and \<open>medium\<close> when there is none.
\<close>

theorem categories_total_first_interval:
  "get_workload_category w =
     (if 0 \<le> w \<and> w < 0.5 then ''low''
      else if 0.5 \<le> w \<and> w < 0.8 then ''medium''
      else if 0.8 \<le> w \<and> w < 1.0 then ''high''
      else if 1.0 \<le> w then ''overloaded''
      else ''medium'')
   \<and> get_distance_category d =
     (if 0 \<le> d \<and> d < 10 then ''very_close''
      else if 10 \<le> d \<and> d < 50 then ''close''
      else if 50 \<le> d \<and> d < 100 then ''medium''
      else if 100 \<le> d \<and> d < 500 then ''far''
      else if 500 \<le> d then ''very_far''
      else ''medium'')
   \<and> category_loop tbl v =
     (case find (\<lambda>(c, lo, hi). lo \<le> v \<and> lt_bound v hi) tbl of
        None \<Rightarrow> ''medium''
      | Some (c, lo, hi) \<Rightarrow> c)
   \<and> get_workload_category 0 = ''low'' \<and> get_workload_category 0.5 = ''medium''
   \<and> get_workload_category 0.8 = ''high'' \<and> get_workload_category 1.0 = ''overloaded''
   \<and> get_distance_category 0 = ''very_close'' \<and> get_distance_category 10 = ''close''
   \<and> get_distance_category 50 = ''medium'' \<and> get_distance_category 100 = ''far''
   \<and> get_distance_category 500 = ''very_far''
   \<and> get_workload_category (- 1) = ''medium'' \<and> get_distance_category (- 1) = ''medium''"
proof -
  have w: "get_workload_category w =
     (if 0 \<le> w \<and> w < 0.5 then ''low''
      else if 0.5 \<le> w \<and> w < 0.8 then ''medium''
      else if 0.8 \<le> w \<and> w < 1.0 then ''high''
      else if 1.0 \<le> w then ''overloaded''
      else ''medium'')" for w
    by (simp add: get_workload_category_cases)
  have d: "get_distance_category d =
     (if 0 \<le> d \<and> d < 10 then ''very_close''
      else if 10 \<le> d \<and> d < 50 then ''close''
      else if 50 \<le> d \<and> d < 100 then ''medium''
      else if 100 \<le> d \<and> d < 500 then ''far''
      else if 500 \<le> d then ''very_far''
      else ''medium'')" for d
    by (simp add: get_distance_category_cases)
  have b: "get_workload_category 0 = ''low''" "get_workload_category 0.5 = ''medium''"
    "get_workload_category 0.8 = ''high''" "get_workload_category 1.0 = ''overloaded''"
    "get_distance_category 0 = ''very_close''" "get_distance_category 10 = ''close''"
    "get_distance_category 50 = ''medium''" "get_distance_category 100 = ''far''"
    "get_distance_category 500 = ''very_far''"
    "get_workload_category (- 1) = ''medium''" "get_distance_category (- 1) = ''medium''"
    by (simp_all add: get_workload_category_cases get_distance_category_cases)
  from w d b category_loop_find show ?thesis by presburger
qed

subsection \<open>Blending\<close>

text \<open>
  Claim C8. \<open>blend_probabilities\<close> returns exactly
  \<open>rule_weight * rule_prob + (1 - rule_weight) * ml_prob\<close>; with weight 1 that is
  \<open>rule_prob\<close> and with weight 0 it is \<open>ml_prob\<close>, for every pair of probabilities.
\<close>

theorem blend_probabilities_formula:
  "blend_probabilities ml_prob rule_prob rule_weight
     = Inr (rule_weight * rule_prob + (1 - rule_weight) * ml_prob)
   \<and> blend_probabilities ml_prob rule_prob 1 = Inr rule_prob
   \<and> blend_probabilities ml_prob rule_prob 0 = Inr ml_prob"
  by (simp add: blend_probabilities_def)

text \<open>
  Claim C2 says that a \<open>rule_weight\<close> outside \<open>[0,1]\<close> is rejected with a configuration
  error. The code has no such check: with weight 2, model probability 0.2 and rule
  probability 0.9 the call returns 1.6.
\<close>

theorem blend_probabilities_rejects_counterexample:
  "\<not> (0 \<le> (2::real) \<and> (2::real) \<le> 1)
   \<and> blend_probabilities (1/5) (9/10) 2 = Inr (8/5)
   \<and> blend_probabilities (1/5) (9/10) 2 \<noteq> Inl ConfigurationError"
  by (simp add: blend_probabilities_def)

text \<open>
  Claim C2, amended. \<open>blend_probabilities\<close> does not validate \<open>rule_weight\<close>: for every
  weight outside \<open>[0,1]\<close> it returns, without raising, the linear combination computed
  from the weight as given. The weight is not clamped either: when the two probabilities
  differ, the result differs from the one for the weight clipped into \<open>[0,1]\<close>.
\<close>

theorem blend_probabilities_no_validation:
  assumes "rule_weight < 0 \<or> 1 < rule_weight"
  shows "blend_probabilities ml_prob rule_prob rule_weight
           = Inr (rule_weight * rule_prob + (1 - rule_weight) * ml_prob)
         \<and> \<not> isl (blend_probabilities ml_prob rule_prob rule_weight)
         \<and> (rule_prob \<noteq> ml_prob \<longrightarrow>
              blend_probabilities ml_prob rule_prob rule_weight
                \<noteq> blend_probabilities ml_prob rule_prob (clip rule_weight 0 1))"
proof -
  have ne: "clip rule_weight 0 1 \<noteq> rule_weight"
    using assms by (auto simp: clip_def)
  have "rule_weight * rule_prob + (1 - rule_weight) * ml_prob
          \<noteq> clip rule_weight 0 1 * rule_prob + (1 - clip rule_weight 0 1) * ml_prob"
    if "rule_prob \<noteq> ml_prob"
  proof
    assume "rule_weight * rule_prob + (1 - rule_weight) * ml_prob
          = clip rule_weight 0 1 * rule_prob + (1 - clip rule_weight 0 1) * ml_prob"
    then have "(rule_weight - clip rule_weight 0 1) * (rule_prob - ml_prob) = 0"
      by (simp add: algebra_simps)
    with ne that show False by simp
  qed
  then show ?thesis by (simp add: blend_probabilities_def)
qed

theorem blend_probabilities_no_validation_witness:
  "((2::real) < 0 \<or> 1 < (2::real))
   \<and> blend_probabilities (1/5) (9/10) 2 = Inr (8/5)
   \<and> \<not> isl (blend_probabilities (1/5) (9/10) 2)
   \<and> blend_probabilities (1/5) (9/10) 2 \<noteq> blend_probabilities (1/5) (9/10) (clip 2 0 1)"
proof -
  have h: "(2::real) < 0 \<or> 1 < (2::real)" by simp
  have ne: "(9/10::real) \<noteq> 1/5" by simp
  from blend_probabilities_no_validation [OF h, of "1/5" "9/10"] ne h
  show ?thesis by fastforce
qed

subsection \<open>The dispatch grade\<close>

lemma distance_score_bounds: "0 \<le> distance_score d \<and> distance_score d \<le> 30"
  by (simp add: distance_score_def Let_def)

lemma duration_score_bounds: "0 \<le> duration_score v \<and> duration_score v \<le> 36"
  by (simp add: duration_score_def Let_def)

lemma productive_score_bounds:
  assumes "0 \<le> p" "p \<le> 1" "case sp of None \<Rightarrow> True | Some q \<Rightarrow> 0 \<le> q \<and> q \<le> 1"
  shows "0 \<le> productive_score p u sp \<and> productive_score p u sp \<le> 25"
  using assms by (cases u; cases sp) (simp_all add: productive_score_def)

lemma ftf_score_bounds:
  assumes "0 \<le> f" "f \<le> 1" "case sp of None \<Rightarrow> True | Some q \<Rightarrow> 0 \<le> q \<and> q \<le> 1"
  shows "0 \<le> ftf_score f u sp \<and> ftf_score f u sp \<le> 15"
  using assms by (cases u; cases sp) (simp_all add: ftf_score_def)

lemma grade_sum:
  "calculate_dispatch_grade d v p f u sp =
     min 100 (distance_score d + duration_score v + productive_score p u sp + ftf_score f u sp)"
  by (simp add: calculate_dispatch_grade_def Let_def)

text \<open>
  Claim C3. For a distance \<open>d \<ge> 0\<close>, any overrun \<open>v\<close>, and signals in \<open>[0,1]\<close> (the
  productive and first-time-fix inputs, and the shared success probability when one is
  given), \<open>calculate_dispatch_grade\<close> returns a value in \<open>[0,100]\<close>. The cap is one
  \<open>min 100\<close> around the sum of the four scores, not a cap on each score: at distance 0,
  overrun -30, productive 1, first-time-fix 1 the scores are 30, 36, 25 and 15, their sum
  is 106, and the grade is exactly 100.
\<close>

theorem dispatch_grade_in_range:
  "(0 \<le> d \<and> 0 \<le> p \<and> p \<le> 1 \<and> 0 \<le> f \<and> f \<le> 1
      \<and> (case sp of None \<Rightarrow> True | Some q \<Rightarrow> 0 \<le> q \<and> q \<le> 1)
    \<longrightarrow> 0 \<le> calculate_dispatch_grade d v p f u sp
        \<and> calculate_dispatch_grade d v p f u sp \<le> 100)
   \<and> calculate_dispatch_grade d v p f u sp =
       min 100 (distance_score d + duration_score v + productive_score p u sp + ftf_score f u sp)
   \<and> distance_score 0 = 30 \<and> duration_score (- 30) = 36
   \<and> productive_score 1 False None = 25 \<and> ftf_score 1 False None = 15
   \<and> calculate_dispatch_grade 0 (- 30) 1 1 False None = 100"
proof -
  have range: "0 \<le> calculate_dispatch_grade d v p f u sp
        \<and> calculate_dispatch_grade d v p f u sp \<le> 100"
    if "0 \<le> p" "p \<le> 1" "0 \<le> f" "f \<le> 1"
       "case sp of None \<Rightarrow> True | Some q \<Rightarrow> 0 \<le> q \<and> q \<le> 1"
  proof -
    note a = distance_score_bounds [of d] duration_score_bounds [of v]
      productive_score_bounds [OF that(1,2,5), of u] ftf_score_bounds [OF that(3,4,5), of u]
    from a show ?thesis unfolding grade_sum by linarith
  qed
  have comps: "distance_score 0 = 30" "duration_score (- 30) = 36"
    "productive_score 1 False None = 25" "ftf_score 1 False None = 15"
    by (simp_all add: distance_score_def max_distance_for_zero_def duration_score_def
        productive_score_def ftf_score_def Let_def)
  have top: "calculate_dispatch_grade 0 (- 30) 1 1 False None = 100"
    unfolding grade_sum comps by simp
  from range comps top grade_sum show ?thesis by blast
qed

theorem dispatch_grade_in_range_witness:
  "0 \<le> calculate_dispatch_grade 0 (- 30) 1 1 False None
   \<and> calculate_dispatch_grade 0 (- 30) 1 1 False None \<le> 100
   \<and> calculate_dispatch_grade 0 (- 30) 1 1 False None = 100"
  using dispatch_grade_in_range
    [where d = 0 and v = "- 30" and p = 1 and f = 1 and u = False and sp = None]
  by simp

subsection \<open>Rounding to the nearest double\<close>

lemma rhe_cases:
  assumes "0 \<le> y"
  shows "real (round_half_even y) = real_of_int \<lfloor>y\<rfloor> \<or> real (round_half_even y) = real_of_int \<lfloor>y\<rfloor> + 1"
  using assms by (auto simp: round_half_even_def Let_def)

lemma rhe_lower:
  assumes "0 \<le> y"
  shows "real_of_int \<lfloor>y\<rfloor> \<le> real (round_half_even y)"
  using rhe_cases[OF assms] by linarith

lemma rhe_upper:
  assumes "0 \<le> y"
  shows "real (round_half_even y) \<le> real_of_int \<lfloor>y\<rfloor> + 1"
  using rhe_cases[OF assms] by linarith

lemma rhe_int: "round_half_even (real n) = n"
  by (simp add: round_half_even_def Let_def)

lemma rhe_mono:
  assumes "0 \<le> y1" "y1 \<le> y2"
  shows "round_half_even y1 \<le> round_half_even y2"
proof (cases "\<lfloor>y1\<rfloor> = \<lfloor>y2\<rfloor>")
  case True
  then show ?thesis using assms
    by (auto simp: round_half_even_def Let_def)
next
  case False
  then have "\<lfloor>y1\<rfloor> < \<lfloor>y2\<rfloor>" using assms floor_mono[of y1 y2] by linarith
  then have "real_of_int \<lfloor>y1\<rfloor> + 1 \<le> real_of_int \<lfloor>y2\<rfloor>" by linarith
  moreover have "real (round_half_even y1) \<le> real_of_int \<lfloor>y1\<rfloor> + 1" using rhe_upper assms by simp
  moreover have "real_of_int \<lfloor>y2\<rfloor> \<le> real (round_half_even y2)" using rhe_lower assms by simp
  ultimately have "real (round_half_even y1) \<le> real (round_half_even y2)" by linarith
  then show ?thesis by simp
qed

lemma binade:
  assumes "0 < x"
  shows "2 powr real_of_int \<lfloor>log 2 x\<rfloor> \<le> x" "x < 2 powr (real_of_int \<lfloor>log 2 x\<rfloor> + 1)"
proof -
  have "real_of_int \<lfloor>log 2 x\<rfloor> \<le> log 2 x" by simp
  then show "2 powr real_of_int \<lfloor>log 2 x\<rfloor> \<le> x"
    using assms by (simp add: powr_le_iff)
  have "log 2 x < real_of_int \<lfloor>log 2 x\<rfloor> + 1" by linarith
  then show "x < 2 powr (real_of_int \<lfloor>log 2 x\<rfloor> + 1)"
    using assms by (simp add: less_powr_iff)
qed


lemma round_double_pos:
  assumes "0 < x"
  shows "round_double x =
           2 powr real_of_int (\<lfloor>log 2 x\<rfloor> - 52)
             * real (round_half_even (x / 2 powr real_of_int (\<lfloor>log 2 x\<rfloor> - 52)))"
  using assms by (simp add: round_double_def Let_def)

lemma round_double_minus: "round_double (- x) = - round_double x"
  by (simp add: round_double_def Let_def sgn_minus)

lemma ulp_scale:
  "2 powr real_of_int \<lfloor>log 2 x\<rfloor>
     = 2 powr real_of_int (\<lfloor>log 2 x\<rfloor> - 52) * real ((2::nat) ^ 52)"
  "2 powr (real_of_int \<lfloor>log 2 x\<rfloor> + 1)
     = 2 powr real_of_int (\<lfloor>log 2 x\<rfloor> - 52) * real ((2::nat) ^ 53)"
  by (simp_all add: powr_diff powr_add)

lemma scaled_range:
  assumes "0 < x"
  defines "u \<equiv> 2 powr real_of_int (\<lfloor>log 2 x\<rfloor> - 52)"
  shows "real ((2::nat) ^ 52) \<le> x / u" "x / u \<le> real ((2::nat) ^ 53)" "0 < u"
proof -
  show u: "0 < u" by (simp add: u_def)
  from binade(1)[OF assms(1)] have "u * real ((2::nat) ^ 52) \<le> x"
    unfolding ulp_scale(1) u_def .
  then show "real ((2::nat) ^ 52) \<le> x / u"
    using u by (simp only: pos_le_divide_eq mult.commute)
  from binade(2)[OF assms(1)] have "x < u * real ((2::nat) ^ 53)"
    unfolding ulp_scale(2) u_def .
  then have "x / u < real ((2::nat) ^ 53)"
    using u by (simp only: pos_divide_less_eq mult.commute)
  then show "x / u \<le> real ((2::nat) ^ 53)" by linarith
qed

lemma round_double_pos_bounds:
  assumes "0 < x"
  shows "2 powr real_of_int \<lfloor>log 2 x\<rfloor> \<le> round_double x"
    and "round_double x \<le> 2 powr (real_of_int \<lfloor>log 2 x\<rfloor> + 1)"
proof -
  define u where "u = 2 powr real_of_int (\<lfloor>log 2 x\<rfloor> - 52)"
  note r = scaled_range[OF assms, folded u_def]
  have rd: "round_double x = u * real (round_half_even (x / u))"
    using round_double_pos[OF assms] by (simp add: u_def)
  have e: "2 powr real_of_int \<lfloor>log 2 x\<rfloor> = u * real ((2::nat) ^ 52)"
    unfolding u_def by (rule ulp_scale(1))
  have e1: "2 powr (real_of_int \<lfloor>log 2 x\<rfloor> + 1) = u * real ((2::nat) ^ 53)"
    unfolding u_def by (rule ulp_scale(2))
  have "round_half_even (real ((2::nat) ^ 52)) \<le> round_half_even (x / u)"
    using r(1) by (intro rhe_mono) simp_all
  then have lo: "real ((2::nat) ^ 52) \<le> real (round_half_even (x / u))"
    unfolding rhe_int by linarith
  have "0 \<le> x / u" using r(1) by linarith
  then have "round_half_even (x / u) \<le> round_half_even (real ((2::nat) ^ 53))"
    using r(2) by (intro rhe_mono)
  then have hi: "real (round_half_even (x / u)) \<le> real ((2::nat) ^ 53)"
    unfolding rhe_int by linarith
  show "2 powr real_of_int \<lfloor>log 2 x\<rfloor> \<le> round_double x"
    unfolding rd e using lo r(3) by (simp only: mult_le_cancel_left_pos)
  show "round_double x \<le> 2 powr (real_of_int \<lfloor>log 2 x\<rfloor> + 1)"
    unfolding rd e1 using hi r(3) by (simp only: mult_le_cancel_left_pos)
qed

lemma round_double_pos_gt0: "0 < x \<Longrightarrow> 0 < round_double x"
  using round_double_pos_bounds(1)[of x] powr_gt_zero[of 2 "real_of_int \<lfloor>log 2 x\<rfloor>"]
  by linarith

lemma round_double_mono_pos:
  assumes "0 < x" "x \<le> y"
  shows "round_double x \<le> round_double y"
proof -
  have y: "0 < y" using assms by linarith
  have "log 2 x \<le> log 2 y" using assms by simp
  then have le: "\<lfloor>log 2 x\<rfloor> \<le> \<lfloor>log 2 y\<rfloor>" by (rule floor_mono)
  show ?thesis
  proof (cases "\<lfloor>log 2 x\<rfloor> = \<lfloor>log 2 y\<rfloor>")
    case True
    define u where "u = 2 powr real_of_int (\<lfloor>log 2 x\<rfloor> - 52)"
    have u: "0 < u" by (simp add: u_def)
    have rx: "round_double x = u * real (round_half_even (x / u))"
      using round_double_pos[OF assms(1)] by (simp add: u_def)
    have ry: "round_double y = u * real (round_half_even (y / u))"
      using round_double_pos[OF y] True by (simp add: u_def)
    have "0 \<le> x / u" "x / u \<le> y / u" using assms u by (simp_all add: divide_right_mono)
    then have "round_half_even (x / u) \<le> round_half_even (y / u)" by (rule rhe_mono)
    then have "real (round_half_even (x / u)) \<le> real (round_half_even (y / u))" by simp
    then show ?thesis unfolding rx ry using u by (simp only: mult_le_cancel_left_pos)
  next
    case False
    with le have "\<lfloor>log 2 x\<rfloor> + 1 \<le> \<lfloor>log 2 y\<rfloor>" by linarith
    then have "real_of_int \<lfloor>log 2 x\<rfloor> + 1 \<le> real_of_int \<lfloor>log 2 y\<rfloor>" by linarith
    then have "(2::real) powr (real_of_int \<lfloor>log 2 x\<rfloor> + 1) \<le> 2 powr real_of_int \<lfloor>log 2 y\<rfloor>"
      by (simp only: powr_le_cancel_iff) 
    with round_double_pos_bounds(2)[OF assms(1)] round_double_pos_bounds(1)[OF y]
    show ?thesis by linarith
  qed
qed

lemma round_double_zero: "round_double 0 = 0"
  by (simp add: round_double_def)

lemma round_double_neg_lt0: "x < 0 \<Longrightarrow> round_double x < 0"
  using round_double_pos_gt0[of "- x"] round_double_minus[of x] by simp

lemma round_double_mono:
  assumes "x \<le> y"
  shows "round_double x \<le> round_double y"
proof -
  consider "0 < x" | "x = 0" "y = 0" | "x = 0" "0 < y" | "x < 0" "0 \<le> y" | "x < 0" "y < 0"
    using assms by linarith
  then show ?thesis
  proof cases
    case 1
    then show ?thesis using assms by (rule round_double_mono_pos)
  next
    case 2
    then show ?thesis by simp
  next
    case 3
    then show ?thesis using round_double_pos_gt0[of y] by (simp add: round_double_zero)
  next
    case 4
    have "round_double x < 0" using 4 by (simp add: round_double_neg_lt0)
    moreover have "0 \<le> round_double y"
      using 4 round_double_pos_gt0[of y] by (cases "y = 0") (simp_all add: round_double_zero less_imp_le)
    ultimately show ?thesis by linarith
  next
    case 5
    then have "round_double (- y) \<le> round_double (- x)"
      using assms by (intro round_double_mono_pos) simp_all
    then show ?thesis by (simp add: round_double_minus)
  qed
qed


lemma floor_log2:
  assumes "0 < x" "2 powr real_of_int e \<le> x" "x < 2 powr (real_of_int e + 1)"
  shows "\<lfloor>log 2 x\<rfloor> = e"
proof (rule floor_unique)
  show "real_of_int e \<le> log 2 x" using assms by (simp add: le_log_iff)
  show "log 2 x < real_of_int e + 1" using assms by (simp add: log_less_iff)
qed

lemma round_double_exact:
  assumes "0 < x" "\<lfloor>log 2 x\<rfloor> = e" "x = 2 powr real_of_int (e - 52) * real n"
  shows "round_double x = x"
proof -
  define u where "u = 2 powr real_of_int (e - 52)"
  have u: "0 < u" by (simp add: u_def)
  have "x / u = real n" using assms(3) u by (simp add: u_def)
  then have "round_half_even (x / u) = n" by (simp only: rhe_int)
  then show ?thesis
    using round_double_pos[OF assms(1)] assms(2,3) by (simp add: u_def)
qed

lemma round_double_30: "round_double 30 = 30"
proof (rule round_double_exact)
  show "\<lfloor>log 2 (30::real)\<rfloor> = 4"
    by (rule floor_log2) simp_all
  show "(30::real) = 2 powr real_of_int (4 - 52) * real (30 * 2 ^ 48)"
    by (simp add: powr_minus_divide)
qed simp

lemma round_double_1: "round_double 1 = 1"
proof (rule round_double_exact)
  show "\<lfloor>log 2 (1::real)\<rfloor> = 0" by simp
  show "(1::real) = 2 powr real_of_int (0 - 52) * real (2 ^ 52)"
    by (simp add: powr_minus_divide)
qed simp

lemma round_double_near_one:
  assumes "1 - 1 / 2 ^ 56 \<le> y" "y < 1"
  shows "round_double y = 1"
proof -
  have y0: "0 < y" using assms by simp
  have e: "\<lfloor>log 2 y\<rfloor> = - 1"
    using assms by (intro floor_log2) (simp_all add: powr_minus_divide)
  have u: "(2::real) powr real_of_int (- 1 - 52) = 1 / 2 ^ 53"
    by (simp add: powr_minus_divide)
  define z where "z = y * 2 ^ 53"
  have z: "2 ^ 53 - 1 / 8 \<le> z" "z < 2 ^ 53"
    using assms by (simp_all add: z_def field_simps)
  have fl: "\<lfloor>z\<rfloor> = 2 ^ 53 - 1"
    using z by (intro floor_unique) simp_all
  have "round_half_even z = 2 ^ 53"
    using z by (simp add: round_half_even_def Let_def fl nat_diff_distrib nat_power_eq)
  then have "round_half_even (y / (1 / 2 ^ 53)) = 2 ^ 53"
    by (simp add: z_def)
  then show ?thesis
    unfolding round_double_pos[OF y0] e u by simp
qed

lemma round_double_neg_bound:
  assumes "x < 0"
  shows "2 * x \<le> round_double x"
proof -
  have p: "0 < - x" using assms by simp
  have "round_double (- x) \<le> 2 powr (real_of_int \<lfloor>log 2 (- x)\<rfloor> + 1)"
    by (rule round_double_pos_bounds(2)[OF p])
  also have "\<dots> = 2 * 2 powr real_of_int \<lfloor>log 2 (- x)\<rfloor>"
    by (simp add: powr_add)
  also have "\<dots> \<le> 2 * (- x)"
    using binade(1)[OF p] by simp
  finally show ?thesis by (simp add: round_double_minus)
qed

lemma round_double_pos_bound:
  assumes "0 < x"
  shows "round_double x \<le> 2 * x"
  using round_double_neg_bound[of "- x"] assms by (simp add: round_double_minus)

subsection \<open>The distance score in double arithmetic\<close>

lemma np_exp_pos: "0 < np_exp x"
  by (simp add: np_exp_def round_double_pos_gt0)

lemma np_exp_mono: "x \<le> y \<Longrightarrow> np_exp x \<le> np_exp y"
  by (simp add: np_exp_def round_double_mono)

lemma np_exp_0: "np_exp 0 = 1"
  by (simp add: np_exp_def round_double_1)

lemma np_exp_tiny:
  assumes "- (1 / 2 ^ 56) \<le> t" "t < 0"
  shows "np_exp t = 1"
proof -
  have "1 + t \<le> exp t" by (rule exp_ge_add_one_self)
  then have "1 - 1 / 2 ^ 56 \<le> exp t" using assms by linarith
  moreover have "exp t < 1" using assms by simp
  ultimately show ?thesis unfolding np_exp_def by (rule round_double_near_one)
qed

lemma k_double_range: "0 < round_double 0.02" "round_double 0.02 \<le> 0.04"
  using round_double_pos_gt0[of "0.02"] round_double_pos_bound[of "0.02"] by simp_all

lemma distance_score_double_form:
  assumes "d < 250"
  shows "distance_score_double d =
           max 0 (min 30 (round_double (30 * np_exp (round_double (- round_double 0.02 * d)))))"
  using assms by (simp add: distance_score_double_def max_distance_for_zero_def Let_def)

lemma distance_score_double_pos:
  assumes "d < 250"
  shows "0 < distance_score_double d" "distance_score_double d \<le> 30"
proof -
  have "0 < 30 * np_exp (round_double (- round_double 0.02 * d))"
    using np_exp_pos by simp
  then have "0 < round_double (30 * np_exp (round_double (- round_double 0.02 * d)))"
    by (rule round_double_pos_gt0)
  then show "0 < distance_score_double d" "distance_score_double d \<le> 30"
    unfolding distance_score_double_form[OF assms] by simp_all
qed

lemma distance_score_double_mono:
  assumes "d1 \<le> d2" "d2 < 250"
  shows "distance_score_double d2 \<le> distance_score_double d1"
proof -
  have d1: "d1 < 250" using assms by linarith
  have "- round_double 0.02 * d2 \<le> - round_double 0.02 * d1"
    using assms k_double_range(1) by simp
  then have "round_double (- round_double 0.02 * d2) \<le> round_double (- round_double 0.02 * d1)"
    by (rule round_double_mono)
  then have "np_exp (round_double (- round_double 0.02 * d2))
               \<le> np_exp (round_double (- round_double 0.02 * d1))"
    by (rule np_exp_mono)
  then have "30 * np_exp (round_double (- round_double 0.02 * d2))
               \<le> 30 * np_exp (round_double (- round_double 0.02 * d1))"
    by simp
  then have "round_double (30 * np_exp (round_double (- round_double 0.02 * d2)))
               \<le> round_double (30 * np_exp (round_double (- round_double 0.02 * d1)))"
    by (rule round_double_mono)
  then show ?thesis
    unfolding distance_score_double_form[OF d1] distance_score_double_form[OF assms(2)]
    by simp
qed

lemma distance_score_double_at_0: "distance_score_double 0 = 30"
  by (simp add: distance_score_double_form round_double_zero np_exp_0 round_double_30)

lemma distance_score_double_at_tiny: "distance_score_double (1 / 2 ^ 57) = 30"
proof -
  define t where "t = - round_double 0.02 * (1 / 2 ^ 57)"
  have t: "t < 0" "- (1 / 2 ^ 57) * 0.04 \<le> t"
    using k_double_range by (simp_all add: t_def field_simps)
  have "2 * t \<le> round_double t" using t(1) by (rule round_double_neg_bound)
  then have lo: "- (1 / 2 ^ 56) \<le> round_double t" using t(2) by simp
  have hi: "round_double t < 0" using t(1) by (rule round_double_neg_lt0)
  have "np_exp (round_double t) = 1" using lo hi by (rule np_exp_tiny)
  then show ?thesis
    by (simp add: distance_score_double_form t_def round_double_30)
qed

text \<open>
  Claim C4 says that the distance score strictly decreases on \<open>[0,250)\<close>. In double
  arithmetic it does not: the distances 0 and \<open>2^-57\<close> both score exactly 30, because the
  exponential of a number that close to 0 rounds to 1.
\<close>

theorem distance_score_strict_counterexample:
  "(0::real) \<le> 0 \<and> (0::real) < 1 / 2 ^ 57 \<and> (1::real) / 2 ^ 57 < 250
   \<and> \<not> distance_score_double (1 / 2 ^ 57) < distance_score_double 0"
  unfolding distance_score_double_at_0 distance_score_double_at_tiny by simp

text \<open>
  Claim C4, amended. The distance score is 0 for every distance from 250 on, by the guard
  and not by the exponential (which at 250 is still positive). For a distance in
  \<open>[0,250)\<close> it is \<open>30 * exp(-0.02 * distance)\<close>, computed in doubles and clamped to
  \<open>[0,30]\<close>; it lies in \<open>(0,30]\<close> and does not increase as the distance grows.
\<close>

theorem distance_score_double_shape:
  "(250 \<le> d \<longrightarrow> distance_score_double d = 0)
   \<and> (0 \<le> d \<and> d < 250 \<longrightarrow>
        distance_score_double d
          = max 0 (min 30 (round_double (30 * np_exp (round_double (- round_double 0.02 * d)))))
        \<and> 0 < distance_score_double d \<and> distance_score_double d \<le> 30)
   \<and> (0 \<le> d1 \<and> d1 \<le> d2 \<and> d2 < 250 \<longrightarrow>
        distance_score_double d2 \<le> distance_score_double d1)
   \<and> distance_score_double 250 = 0 \<and> 0 < round_double (30 * np_exp (round_double (- round_double 0.02 * 250)))"
proof -
  have zero: "distance_score_double d = 0" if "250 \<le> d" for d
    using that by (simp add: distance_score_double_def max_distance_for_zero_def)
  have "0 < 30 * np_exp (round_double (- round_double 0.02 * 250))"
    using np_exp_pos by simp
  then have "0 < round_double (30 * np_exp (round_double (- round_double 0.02 * 250)))"
    by (rule round_double_pos_gt0)
  with zero[of d] zero[of 250] distance_score_double_form[of d] distance_score_double_pos[of d]
    distance_score_double_mono[of d1 d2]
  show ?thesis by simp
qed

theorem distance_score_double_shape_witness:
  "distance_score_double 250 = 0
   \<and> 0 < distance_score_double 1 \<and> distance_score_double 1 \<le> 30
   \<and> distance_score_double 2 \<le> distance_score_double 1"
  using distance_score_double_shape [where d = 250 and ?d1.0 = 1 and ?d2.0 = 2]
    distance_score_double_shape [where d = 1 and ?d1.0 = 1 and ?d2.0 = 2]
  by simp

subsection \<open>The duration score and the probability mode\<close>

text \<open>
  Claim C5. The duration score is \<open>30 + min(6, |overrun| / 30 * 6)\<close> for an overrun
  \<open>\<le> 0\<close> and \<open>max(0, 30 - overrun * (30 / 90))\<close> for an overrun \<open>> 0\<close>: exactly 36 at
  -30, exactly 30 at 0 (the boundary is in the early branch), exactly 0 at +90, and 0 at
  +180.
\<close>

theorem duration_score_shape:
  "(v \<le> 0 \<longrightarrow> duration_score v = 30 + min 6 (\<bar>v\<bar> / 30 * 6))
   \<and> (0 < v \<longrightarrow> duration_score v = max 0 (30 - v * (30 / 90)))
   \<and> duration_score (- 30) = 36
   \<and> duration_score 0 = 30
   \<and> duration_score 90 = 0
   \<and> duration_score 180 = 0"
  by (simp add: duration_score_def Let_def)

theorem duration_score_shape_witness:
  "duration_score (- 60) = 36 \<and> duration_score 45 = 15"
  using duration_score_shape [where v = "- 60"] duration_score_shape [where v = 45] by simp

text \<open>
  Claim C10. With \<open>use_probabilities = True\<close> and \<open>success_prob = None\<close> the grade is
  the one computed with \<open>use_probabilities = False\<close>: the productive and first-time-fix
  scores fall back to \<open>productive_dispatch * 25\<close> and \<open>first_time_fix * 15\<close>. The
  shared probability is used only when the flag is set and a probability is given.
\<close>

theorem probability_mode_fallback:
  "calculate_dispatch_grade d v p f True None = calculate_dispatch_grade d v p f False sp
   \<and> productive_score p True None = p * 25
   \<and> ftf_score f True None = f * 15
   \<and> productive_score p False sp = p * 25
   \<and> ftf_score f False sp = f * 15
   \<and> productive_score p True (Some q) = q * 25
   \<and> ftf_score f True (Some q) = q * 15
   \<and> calculate_dispatch_grade d v p f True (Some q)
       = calculate_dispatch_grade d v q q False None"
  by (cases sp) (simp_all add: calculate_dispatch_grade_def productive_score_def ftf_score_def)

subsection \<open>Recommendations\<close>







end
